theory Spec2Isabelle
  imports Complex_Main "HOL-Library.Option_ord" "HOL-Library.Multiset"
begin

section \<open>Identifiers\<close>

text \<open>
  A store identifier (bson \<open>ObjectId\<close>) is a 12-byte value, kept here as the number it
  denotes. \<open>ObjectId s\<close> is the constructor applied to a string: it accepts exactly 24
  hexadecimal digits (either letter case) and raises \<open>InvalidId\<close> otherwise, which is
  \<open>None\<close> here. \<open>str_oid\<close> is \<open>str(oid)\<close>: 24 lowercase hexadecimal digits.
\<close>

type_synonym oid = nat

definition hexval :: "char \<Rightarrow> nat option" where
  "hexval c = (let n = of_char c :: nat in
      if 48 \<le> n \<and> n \<le> 57 then Some (n - 48)
      else if 97 \<le> n \<and> n \<le> 102 then Some (n - 87)
      else if 65 \<le> n \<and> n \<le> 70 then Some (n - 55)
      else None)"

fun fromhex :: "nat \<Rightarrow> string \<Rightarrow> nat option" where
  "fromhex acc [] = Some acc"
| "fromhex acc (c # cs) =
     (case hexval c of None \<Rightarrow> None | Some d \<Rightarrow> fromhex (16 * acc + d) cs)"

definition ObjectId :: "string \<Rightarrow> oid option" where
  "ObjectId s = (if length s = 24 then fromhex 0 s else None)"

definition hexchar :: "nat \<Rightarrow> char" where
  "hexchar d = ''0123456789abcdef'' ! d"

fun hexdigits :: "nat \<Rightarrow> nat \<Rightarrow> string" where
  "hexdigits 0 n = []"
| "hexdigits (Suc k) n = hexdigits k (n div 16) @ [hexchar (n mod 16)]"

definition str_oid :: "oid \<Rightarrow> string" where
  "str_oid i = hexdigits 24 i"

section \<open>Exceptions\<close>

text \<open>
  \<open>HTTPException\<close> carries the status code and the detail. The other exceptions are
  raised by the store client and by the framework's request validation; one that reaches
  the framework unhandled is answered with status 500 (validation errors with 422).
\<close>

datatype exn =
    HTTPException nat string
  | InvalidId
  | OverflowError
  | OperationFailure
  | NotConfigured
  | ValidationError

fun status_code :: "exn \<Rightarrow> nat" where
  "status_code (HTTPException c m) = c"
| "status_code ValidationError = 422"
| "status_code e = 500"

section \<open>Schemas (schemas.py)\<close>

record Product =
  title :: string
  description :: "string option"
  price :: real
  category :: string
  brand :: "string option"
  images :: "string list"
  stock :: int
  specifications :: "(string \<times> string) list"
  featured :: bool

record OrderItem =
  product_id :: string
  item_title :: string
  item_price :: real
  quantity :: int
  item_image :: "string option"

record Customer =
  name :: string
  email :: string
  phone :: "string option"
  address :: string
  city :: "string option"
  state :: "string option"
  postal_code :: "string option"

record Order =
  items :: "OrderItem list"
  customer :: Customer
  subtotal :: real
  shipping :: real
  order_total :: real
  status :: string
  order_notes :: "string option"

text \<open>
  The \<open>Order\<close> model built from a request body: a field the caller leaves out takes
  its declared default (\<open>shipping\<close> 0, \<open>status\<close> "pending", \<open>notes\<close> None), and the
  \<open>ge\<close> constraints of \<open>Order\<close> and \<open>OrderItem\<close> are checked.
\<close>

definition Order_schema ::
  "OrderItem list \<Rightarrow> Customer \<Rightarrow> real \<Rightarrow> real option \<Rightarrow> real \<Rightarrow> string option \<Rightarrow>
   string option \<Rightarrow> exn + Order" where
  "Order_schema its cust sub ship tot st nts =
     (let ship' = (case ship of None \<Rightarrow> 0 | Some x \<Rightarrow> x) in
      if list_all (\<lambda>it. 1 \<le> quantity it) its \<and> 0 \<le> sub \<and> 0 \<le> ship' \<and> 0 \<le> tot
      then Inr \<lparr>items = its, customer = cust, subtotal = sub, shipping = ship',
                order_total = tot,
                status = (case st of None \<Rightarrow> ''pending'' | Some s \<Rightarrow> s),
                order_notes = nts\<rparr>
      else Inl ValidationError)"

section \<open>The document store\<close>

text \<open>
  A stored document: its \<open>_id\<close>, the optional time stamps and the dumped schema fields.
  The same record with a string identifier is the dictionary the endpoints return
  (\<open>d["id"] = str(d.pop("_id"))\<close>). A collection keeps the store's natural order; \<open>db\<close>
  is \<open>None\<close> when no store is configured.
\<close>

record ('i, 'a) document =
  ident :: 'i
  created_at :: "nat option"
  updated_at :: "nat option"
  body :: 'a

type_synonym 'a collection = "(oid, 'a) document list"

record database =
  product_coll :: "Product collection"
  order_coll :: "Order collection"

definition find_one :: "'a collection \<Rightarrow> oid \<Rightarrow> (oid, 'a) document option" where
  "find_one coll i = find (\<lambda>d. ident d = i) coll"

fun update_first ::
  "'a collection \<Rightarrow> oid \<Rightarrow> ((oid, 'a) document \<Rightarrow> (oid, 'a) document) \<Rightarrow> 'a collection" where
  "update_first [] i f = []"
| "update_first (d # ds) i f = (if ident d = i then f d # ds else d # update_first ds i f)"

definition inc_stock :: "int \<Rightarrow> (oid, Product) document \<Rightarrow> (oid, Product) document" where
  "inc_stock n d = d\<lparr>body := (body d)\<lparr>stock := stock (body d) + n\<rparr>\<rparr>"

definition update_one_inc_stock :: "Product collection \<Rightarrow> oid \<Rightarrow> int \<Rightarrow> Product collection" where
  "update_one_inc_stock coll i n = update_first coll i (inc_stock n)"

definition find_one_and_update ::
  "'a collection \<Rightarrow> oid \<Rightarrow> 'a \<Rightarrow> nat \<Rightarrow> (oid, 'a) document option \<times> 'a collection" where
  "find_one_and_update coll i data now =
     (case find_one coll i of
        None \<Rightarrow> (None, coll)
      | Some d \<Rightarrow>
          (Some (d\<lparr>body := data, updated_at := Some now\<rparr>),
           update_first coll i (\<lambda>d. d\<lparr>body := data, updated_at := Some now\<rparr>)))"

fun delete_one :: "'a collection \<Rightarrow> oid \<Rightarrow> nat \<times> 'a collection" where
  "delete_one [] i = (0, [])"
| "delete_one (d # ds) i =
     (if ident d = i then (1, ds)
      else (case delete_one ds i of (n, ds') \<Rightarrow> (n, d # ds')))"

definition insert_one :: "'a collection \<Rightarrow> (oid, 'a) document \<Rightarrow> 'a collection" where
  "insert_one coll d = coll @ [d]"

text \<open>
  The cursor's \<open>limit\<close>, read by \<open>list(...)\<close>. The limit 0 means no limit. A
  positive limit is the number of documents the cursor yields at most. A negative limit
  is sent as its absolute value together with the request for a single batch, so the
  client receives at most the documents of the first reply: their number is the
  parameter \<open>batch\<close> (101 by default, fewer when the reply would grow beyond its size
  bound). A limit beyond the store's 64-bit integers is refused when the command is
  encoded.
\<close>

definition cursor_limit :: "nat \<Rightarrow> int \<Rightarrow> 'a list \<Rightarrow> exn + 'a list" where
  "cursor_limit batch n xs =
     (if n = 0 then Inr xs
      else if 2 ^ 63 \<le> \<bar>n\<bar> then Inl OverflowError
      else if n < 0 then Inr (take (min (nat \<bar>n\<bar>) batch) xs)
      else Inr (take (nat n) xs))"

text \<open>
  \<open>sort("created_at", -1)\<close>: descending, a document without the field last (a missing
  field sorts as null, below every date).
\<close>

definition sort_created_desc :: "'a collection \<Rightarrow> 'a collection" where
  "sort_created_desc coll = rev (sort_key created_at coll)"

definition with_id :: "(oid, 'a) document \<Rightarrow> (string, 'a) document" where
  "with_id d = \<lparr>ident = str_oid (ident d), created_at = created_at d,
                updated_at = updated_at d, body = body d\<rparr>"

text \<open>
  Modelled from the spec: \<open>create_document\<close> of the \<open>database\<close> module, which main.py
  imports and which is not among the sources. Spec 4.1 and 4.2: it inserts the document and
  returns the new identifier (as a string, spec 6), with no deduplication. The identifier
  the driver generates is the argument \<open>new_id\<close>.
\<close>

definition create_document :: "'a collection \<Rightarrow> 'a \<Rightarrow> oid \<Rightarrow> string \<times> 'a collection" where
  "create_document coll data new_id =
     (str_oid new_id,
      insert_one coll \<lparr>ident = new_id, created_at = None, updated_at = None, body = data\<rparr>)"

section \<open>Text search: \<open>$regex\<close> with option \<open>i\<close>\<close>

text \<open>
  The query text is handed to the store as a regular expression. The store's engine is
  the parameter \<open>pcre\<close> (\<open>None\<close>: the engine rejects the pattern). Its verdict is fixed
  here on a fragment where it does not depend on the engine: the pattern is a sequence
  of printable ASCII characters other than the metacharacters, each optionally followed
  by the quantifier \<open>+\<close> (one or more), the subject is ASCII, letters match in either
  case, and the pattern may match anywhere in the subject.
\<close>

definition plain_char :: "char \<Rightarrow> bool" where
  "plain_char c = (let n = of_char c :: nat in
      32 \<le> n \<and> n < 127 \<and>
      n \<notin> set [36, 40, 41, 42, 43, 46, 63, 91, 92, 93, 94, 123, 124, 125])"

datatype quant = One | Plus

fun parse_pattern :: "string \<Rightarrow> (char \<times> quant) list option" where
  "parse_pattern [] = Some []"
| "parse_pattern [c] = (if plain_char c then Some [(c, One)] else None)"
| "parse_pattern (c # d # cs) =
     (if \<not> plain_char c then None
      else if d = CHR ''+'' then map_option ((#) (c, Plus)) (parse_pattern cs)
      else map_option ((#) (c, One)) (parse_pattern (d # cs)))"

definition lower :: "char \<Rightarrow> char" where
  "lower c =
     (case map_of (zip ''ABCDEFGHIJKLMNOPQRSTUVWXYZ'' ''abcdefghijklmnopqrstuvwxyz'') c of
        None \<Rightarrow> c
      | Some l \<Rightarrow> l)"

definition ascii :: "string \<Rightarrow> bool" where
  "ascii s = list_all (\<lambda>c. (of_char c :: nat) < 128) s"

fun match_here :: "(char \<times> quant) list \<Rightarrow> string \<Rightarrow> bool" where
  "match_here [] s = True"
| "match_here ((c, q) # p) [] = False"
| "match_here ((c, One) # p) (x # xs) = (lower c = lower x \<and> match_here p xs)"
| "match_here ((c, Plus) # p) (x # xs) =
     (lower c = lower x \<and> (match_here ((c, Plus) # p) xs \<or> match_here p xs))"

fun search :: "(char \<times> quant) list \<Rightarrow> string \<Rightarrow> bool" where
  "search p [] = match_here p []"
| "search p (x # xs) = (match_here p (x # xs) \<or> search p xs)"

definition regex_i ::
  "(string \<Rightarrow> (string \<Rightarrow> bool) option) \<Rightarrow> string \<Rightarrow> (string \<Rightarrow> bool) option" where
  "regex_i pcre q =
     (case parse_pattern q of
        None \<Rightarrow> pcre q
      | Some p \<Rightarrow>
          Some (\<lambda>s. if ascii s then search p s
                    else (case pcre q of None \<Rightarrow> False | Some m \<Rightarrow> m s)))"

section \<open>Product endpoints (main.py)\<close>

text \<open>
  The filter \<open>list_products\<close> builds: the key \<open>$or\<close> (the same pattern on \<open>title\<close> and on
  \<open>description\<close>), the key \<open>category\<close> and the key \<open>featured\<close>, each present only when
  its \<open>if\<close> fired. The store accepts a document when every key present accepts it.
\<close>

record query =
  or_regex :: "string option"
  category_eq :: "string option"
  featured_eq :: "bool option"

definition build_query :: "string option \<Rightarrow> string option \<Rightarrow> bool option \<Rightarrow> query" where
  "build_query q cat feat =
     \<lparr>or_regex = (case q of None \<Rightarrow> None | Some s \<Rightarrow> if s = [] then None else Some s),
      category_eq = (case cat of None \<Rightarrow> None | Some c \<Rightarrow> if c = [] then None else Some c),
      featured_eq = feat\<rparr>"

definition text_match :: "(string \<Rightarrow> bool) \<Rightarrow> Product \<Rightarrow> bool" where
  "text_match m p =
     (m (title p) \<or> (case description p of None \<Rightarrow> False | Some s \<Rightarrow> m s))"

definition accepts :: "(string \<Rightarrow> bool) option \<Rightarrow> query \<Rightarrow> Product \<Rightarrow> bool" where
  "accepts m qu p =
     ((case m of None \<Rightarrow> True | Some f \<Rightarrow> text_match f p) \<and>
      (case category_eq qu of None \<Rightarrow> True | Some c \<Rightarrow> category p = c) \<and>
      (case featured_eq qu of None \<Rightarrow> True | Some b \<Rightarrow> featured p = b))"

definition find_products ::
  "(string \<Rightarrow> (string \<Rightarrow> bool) option) \<Rightarrow> Product collection \<Rightarrow> query \<Rightarrow>
   exn + Product collection" where
  "find_products pcre coll qu =
     (case or_regex qu of
        None \<Rightarrow> Inr (filter (\<lambda>d. accepts None qu (body d)) coll)
      | Some pat \<Rightarrow>
          (case regex_i pcre pat of
             None \<Rightarrow> Inl OperationFailure
           | Some f \<Rightarrow> Inr (filter (\<lambda>d. accepts (Some f) qu (body d)) coll)))"

definition list_products ::
  "(string \<Rightarrow> (string \<Rightarrow> bool) option) \<Rightarrow> nat \<Rightarrow> database option \<Rightarrow> string option \<Rightarrow>
   string option \<Rightarrow> bool option \<Rightarrow> int option \<Rightarrow> exn + (string, Product) document list" where
  "list_products pcre batch db q cat feat limit =
     (case db of
        None \<Rightarrow> Inl (HTTPException 500 ''Database not configured'')
      | Some d \<Rightarrow>
          (case find_products pcre (product_coll d) (build_query q cat feat) of
             Inl e \<Rightarrow> Inl e
           | Inr found \<Rightarrow>
               (case cursor_limit batch (case limit of None \<Rightarrow> 100 | Some n \<Rightarrow> n) found of
                  Inl e \<Rightarrow> Inl e
                | Inr docs \<Rightarrow> Inr (map with_id docs))))"

text \<open>
  \<open>create_product\<close> has no check of its own for a missing store; the failure of the helper
  there is the store-unavailable error of spec 7. The parameter \<open>uu\<close> is the Python
  parameter \<open>_\<close>, which the body never reads.
\<close>

definition create_product ::
  "database option \<Rightarrow> Product \<Rightarrow> bool \<Rightarrow> oid \<Rightarrow> (exn + string) \<times> database option" where
  "create_product db payload uu new_id =
     (case db of
        None \<Rightarrow> (Inl NotConfigured, db)
      | Some d \<Rightarrow>
          (case create_document (product_coll d) payload new_id of
             (sid, coll') \<Rightarrow> (Inr sid, Some (d\<lparr>product_coll := coll'\<rparr>))))"

text \<open>
  \<open>get_product\<close>: the whole body is inside \<open>try\<close>, and the handler \<open>except Exception\<close>
  also catches the \<open>HTTPException\<close> raised for a missing product.
\<close>

definition get_product_try :: "database \<Rightarrow> string \<Rightarrow> exn + (string, Product) document" where
  "get_product_try d pid =
     (case ObjectId pid of
        None \<Rightarrow> Inl InvalidId
      | Some i \<Rightarrow>
          (case find_one (product_coll d) i of
             None \<Rightarrow> Inl (HTTPException 404 ''Product not found'')
           | Some doc \<Rightarrow> Inr (with_id doc)))"

definition get_product :: "database option \<Rightarrow> string \<Rightarrow> exn + (string, Product) document" where
  "get_product db pid =
     (case db of
        None \<Rightarrow> Inl (HTTPException 500 ''Database not configured'')
      | Some d \<Rightarrow>
          (case get_product_try d pid of
             Inl e \<Rightarrow> Inl (HTTPException 400 ''Invalid product id'')
           | Inr doc \<Rightarrow> Inr doc))"

definition update_product ::
  "database option \<Rightarrow> string \<Rightarrow> Product \<Rightarrow> bool \<Rightarrow> nat \<Rightarrow>
   (exn + (string, Product) document) \<times> database option" where
  "update_product db pid payload uu now =
     (case db of
        None \<Rightarrow> (Inl (HTTPException 500 ''Database not configured''), db)
      | Some d \<Rightarrow>
          (case ObjectId pid of
             None \<Rightarrow> (Inl InvalidId, db)
           | Some i \<Rightarrow>
               (case find_one_and_update (product_coll d) i payload now of
                  (None, coll') \<Rightarrow> (Inl (HTTPException 404 ''Product not found''), db)
                | (Some res, coll') \<Rightarrow>
                    (Inr (with_id res), Some (d\<lparr>product_coll := coll'\<rparr>)))))"

definition delete_product ::
  "database option \<Rightarrow> string \<Rightarrow> bool \<Rightarrow> (exn + bool) \<times> database option" where
  "delete_product db pid uu =
     (case db of
        None \<Rightarrow> (Inl (HTTPException 500 ''Database not configured''), db)
      | Some d \<Rightarrow>
          (case ObjectId pid of
             None \<Rightarrow> (Inl InvalidId, db)
           | Some i \<Rightarrow>
               (case delete_one (product_coll d) i of
                  (n, coll') \<Rightarrow>
                    if n = 0 then (Inl (HTTPException 404 ''Product not found''), db)
                    else (Inr True, Some (d\<lparr>product_coll := coll'\<rparr>)))))"

section \<open>Order endpoints (main.py)\<close>

text \<open>
  The body of the \<open>try\<close> in the validation loop of \<open>create_order\<close>, and its two handlers:
  an \<open>HTTPException\<close> is raised again, any other exception becomes status 400.
\<close>

definition check_item :: "Product collection \<Rightarrow> OrderItem \<Rightarrow> exn + unit" where
  "check_item coll item =
     (case ObjectId (product_id item) of
        None \<Rightarrow> Inl InvalidId
      | Some i \<Rightarrow>
          (case find_one coll i of
             None \<Rightarrow> Inl (HTTPException 400 (''Product not found: '' @ product_id item))
           | Some product \<Rightarrow>
               if stock (body product) < quantity item
               then Inl (HTTPException 400 (''Insufficient stock for '' @ title (body product)))
               else Inr ()))"

fun handlers :: "exn + unit \<Rightarrow> exn + unit" where
  "handlers (Inl (HTTPException c m)) = Inl (HTTPException c m)"
| "handlers (Inl e) = Inl (HTTPException 400 ''Invalid product id in order'')"
| "handlers (Inr u) = Inr u"

fun validate_items :: "Product collection \<Rightarrow> OrderItem list \<Rightarrow> exn + unit" where
  "validate_items coll [] = Inr ()"
| "validate_items coll (item # rest) =
     (case handlers (check_item coll item) of
        Inl e \<Rightarrow> Inl e
      | Inr u \<Rightarrow> validate_items coll rest)"

text \<open>
  The deduction loop. The identifier is parsed again, outside any \<open>try\<close>; the stock
  changes made before a failure stay.
\<close>

fun deduct_items :: "Product collection \<Rightarrow> OrderItem list \<Rightarrow> exn option \<times> Product collection" where
  "deduct_items coll [] = (None, coll)"
| "deduct_items coll (item # rest) =
     (case ObjectId (product_id item) of
        None \<Rightarrow> (Some InvalidId, coll)
      | Some i \<Rightarrow> deduct_items (update_one_inc_stock coll i (- quantity item)) rest)"

definition create_order ::
  "database option \<Rightarrow> Order \<Rightarrow> oid \<Rightarrow> (exn + string) \<times> database option" where
  "create_order db order new_id =
     (case db of
        None \<Rightarrow> (Inl (HTTPException 500 ''Database not configured''), db)
      | Some d \<Rightarrow>
          (case validate_items (product_coll d) (items order) of
             Inl e \<Rightarrow> (Inl e, db)
           | Inr u \<Rightarrow>
               (case deduct_items (product_coll d) (items order) of
                  (Some e, coll') \<Rightarrow> (Inl e, Some (d\<lparr>product_coll := coll'\<rparr>))
                | (None, coll') \<Rightarrow>
                    (case create_document (order_coll d) order new_id of
                       (sid, orders') \<Rightarrow>
                         (Inr sid, Some (d\<lparr>product_coll := coll', order_coll := orders'\<rparr>))))))"

definition list_orders ::
  "nat \<Rightarrow> database option \<Rightarrow> bool \<Rightarrow> int option \<Rightarrow> exn + (string, Order) document list" where
  "list_orders batch db uu limit =
     (case db of
        None \<Rightarrow> Inl (HTTPException 500 ''Database not configured'')
      | Some d \<Rightarrow>
          (case cursor_limit batch (case limit of None \<Rightarrow> 100 | Some n \<Rightarrow> n)
                  (sort_created_desc (order_coll d)) of
             Inl e \<Rightarrow> Inl e
           | Inr docs \<Rightarrow> Inr (map with_id docs)))"

section \<open>The admin gate (main.py)\<close>

text \<open>
  \<open>require_admin\<close> compares its argument with the environment variable \<open>ADMIN_API_KEY\<close>
  (the first argument; \<open>not admin_key\<close> holds for an unset and for an empty variable).
  Its argument is a header value when the framework supplies one, and the parameter's
  default, the marker object \<open>Header(default=None)\<close>, when the function is called with no
  argument; the marker is equal to no string.
\<close>

datatype header_arg = HeaderMarker | HeaderValue "string option"

definition require_admin :: "string option \<Rightarrow> header_arg \<Rightarrow> exn + bool" where
  "require_admin admin_key x_admin_key =
     (case admin_key of
        None \<Rightarrow> Inr True
      | Some k \<Rightarrow>
          if k = [] then Inr True
          else if x_admin_key \<noteq> HeaderValue (Some k)
          then Inl (HTTPException 401 ''Invalid admin key'')
          else Inr True)"

text \<open>
  The four gated endpoints are declared with the parameter \<open>_=require_admin()\<close>: a call,
  evaluated once when the \<open>def\<close> statement runs at import, with no argument. Its value
  is the default of \<open>_\<close>; an exception it raises ends the import of the module.
\<close>

definition gate_default :: "string option \<Rightarrow> exn + bool" where
  "gate_default admin_key = require_admin admin_key HeaderMarker"

text \<open>
  A request to \<open>POST /api/products\<close> against the module imported under \<open>admin_key\<close>:
  \<open>x_admin_key\<close> is the request's header, which no parameter of the endpoint receives.
\<close>

datatype 'a served = ImportFailed exn | Response 'a

definition post_products ::
  "string option \<Rightarrow> string option \<Rightarrow> database option \<Rightarrow> Product \<Rightarrow> oid \<Rightarrow>
   ((exn + string) \<times> database option) served" where
  "post_products admin_key x_admin_key db payload new_id =
     (case gate_default admin_key of
        Inl e \<Rightarrow> ImportFailed e
      | Inr uu \<Rightarrow> Response (create_product db payload uu new_id))"

section \<open>Example data\<close>

text \<open>
  A small shop: the product of the spec's example (an alloy wheel, stock 10) and a
  second, featured product with a description.
\<close>

definition wheel :: Product where
  "wheel = \<lparr>title = ''Alloy Wheel'', description = None, price = 5000,
             category = ''Accessories'', brand = Some ''Arihant'', images = [], stock = 10,
             specifications = [], featured = False\<rparr>"

definition brake :: Product where
  "brake = \<lparr>title = ''Brake Pad'', description = Some ''Ceramic pad, front axle'',
             price = 1200, category = ''Spares'', brand = Some ''Arihant'', images = [],
             stock = 3, specifications = [(''axle'', ''front'')], featured = True\<rparr>"

definition stored :: "oid \<Rightarrow> 'a \<Rightarrow> (oid, 'a) document" where
  "stored i x = \<lparr>ident = i, created_at = None, updated_at = None, body = x\<rparr>"

definition shop :: database where
  "shop = \<lparr>product_coll = [stored 1 wheel, stored 2 brake], order_coll = []\<rparr>"

definition line :: "string \<Rightarrow> int \<Rightarrow> OrderItem" where
  "line pid n = \<lparr>product_id = pid, item_title = ''item'', item_price = 100, quantity = n,
                 item_image = None\<rparr>"

definition buyer :: Customer where
  "buyer = \<lparr>name = ''Asha'', email = ''asha@example.com'', phone = None,
             address = ''12 Ring Road'', city = None, state = None, postal_code = None\<rparr>"

definition order_of :: "OrderItem list \<Rightarrow> Order" where
  "order_of its = \<lparr>items = its, customer = buyer, subtotal = 0, shipping = 0,
                    order_total = 0, status = ''pending'', order_notes = None\<rparr>"

definition wheel_twice :: Order where
  "wheel_twice = order_of [line ''000000000000000000000001'' 1, line ''000000000000000000000001'' 1]"

definition brake_twice :: Order where
  "brake_twice = order_of [line ''000000000000000000000002'' 2, line ''000000000000000000000002'' 2]"

definition order_shop :: database where
  "order_shop = \<lparr>product_coll = [],
     order_coll = [\<lparr>ident = 10, created_at = Some 100, updated_at = None, body = wheel_twice\<rparr>,
                   \<lparr>ident = 11, created_at = Some 200, updated_at = None, body = brake_twice\<rparr>]\<rparr>"



section \<open>Properties\<close>

subsection \<open>Identifiers\<close>

lemma hexdigits_numeral:
  "hexdigits (numeral k) n = hexdigits (pred_numeral k) (n div 16) @ [hexchar (n mod 16)]"
  by (subst numeral_eq_Suc) simp

lemma hexval_hexchar: "d < 16 \<Longrightarrow> hexval (hexchar d) = Some d"
proof -
  assume "d < 16"
  then have "d = 0 \<or> d = 1 \<or> d = 2 \<or> d = 3 \<or> d = 4 \<or> d = 5 \<or> d = 6 \<or> d = 7 \<or>
     d = 8 \<or> d = 9 \<or> d = 10 \<or> d = 11 \<or> d = 12 \<or> d = 13 \<or> d = 14 \<or> d = 15"
    by arith
  then show ?thesis
    by (auto simp: hexval_def hexchar_def)
qed

lemma length_hexdigits: "length (hexdigits k n) = k"
  by (induction k arbitrary: n) auto

lemma fromhex_append:
  "fromhex acc (xs @ ys) = (case fromhex acc xs of None \<Rightarrow> None | Some a \<Rightarrow> fromhex a ys)"
  by (induction xs arbitrary: acc) (auto split: option.splits)

lemma fromhex_hexdigits: "fromhex acc (hexdigits k n) = Some (acc * 16 ^ k + n mod 16 ^ k)"
proof (induction k arbitrary: n)
  case 0
  then show ?case by simp
next
  case (Suc k)
  have m: "n mod (16 * 16 ^ k) = 16 * (n div 16 mod 16 ^ k) + n mod 16"
    by (simp add: mod_mult2_eq)
  have "fromhex acc (hexdigits (Suc k) n) =
      Some (16 * (acc * 16 ^ k + n div 16 mod 16 ^ k) + n mod 16)"
    by (simp add: fromhex_append Suc hexval_hexchar)
  also have "16 * (acc * 16 ^ k + n div 16 mod 16 ^ k) + n mod 16 =
      acc * 16 ^ Suc k + n mod 16 ^ Suc k"
    using m by (simp add: algebra_simps)
  finally show ?case .
qed

lemma ObjectId_str_oid: "i < 2 ^ 96 \<Longrightarrow> ObjectId (str_oid i) = Some i"
proof -
  assume "i < 2 ^ 96"
  then have "i mod 16 ^ 24 = i" by simp
  then show ?thesis
    by (simp add: ObjectId_def str_oid_def length_hexdigits fromhex_hexdigits)
qed

lemma oid1: "ObjectId ''000000000000000000000001'' = Some 1"
  by (simp add: ObjectId_def hexval_def)

lemma oid2: "ObjectId ''000000000000000000000002'' = Some 2"
  by (simp add: ObjectId_def hexval_def)

subsection \<open>Store operations and the two loops of order creation\<close>

lemma handlers_status:
  "handlers (check_item coll item) = Inl e \<Longrightarrow> status_code e = 400"
  by (auto simp: check_item_def split: option.splits if_splits)

lemma validate_items_fails:
  "item \<in> set its \<Longrightarrow> handlers (check_item coll item) = Inl e' \<Longrightarrow>
   \<exists>e. validate_items coll its = Inl e \<and> status_code e = 400"
proof (induction its)
  case Nil
  then show ?case by simp
next
  case (Cons a its)
  show ?case
  proof (cases "handlers (check_item coll a)")
    case (Inl e)
    then show ?thesis using handlers_status [of coll a e] by simp
  next
    case (Inr u)
    with Cons show ?thesis by auto
  qed
qed

lemma check_item_bad:
  assumes "ObjectId (product_id item) = None \<or>
     (\<exists>i. ObjectId (product_id item) = Some i \<and>
        (find_one coll i = None \<or>
         (\<exists>p. find_one coll i = Some p \<and> stock (body p) < quantity item)))"
  shows "\<exists>e. handlers (check_item coll item) = Inl e"
  using assms by (auto simp: check_item_def)

lemma check_item_good:
  assumes "ObjectId (product_id item) = Some i" "find_one coll i = Some p"
    "quantity item \<le> stock (body p)"
  shows "handlers (check_item coll item) = Inr ()"
  using assms by (simp add: check_item_def)

lemma validate_items_ok:
  "(\<forall>item \<in> set its. \<exists>i p. ObjectId (product_id item) = Some i \<and>
       find_one coll i = Some p \<and> quantity item \<le> stock (body p)) \<Longrightarrow>
   validate_items coll its = Inr ()"
  by (induction its) (auto simp: check_item_good)

lemma find_one_update_first:
  "(\<And>d. ident (f d) = ident d) \<Longrightarrow>
   find_one (update_first coll i f) j =
     (if i = j then map_option f (find_one coll j) else find_one coll j)"
  by (induction coll) (auto simp: find_one_def)

lemma map_ident_update_first:
  "(\<And>d. ident (f d) = ident d) \<Longrightarrow> map ident (update_first coll i f) = map ident coll"
  by (induction coll) auto

lemma stock_update_one:
  "map_option (\<lambda>d. stock (body d)) (find_one (update_one_inc_stock coll i n) j) =
   map_option (\<lambda>s. s + (if i = j then n else 0))
     (map_option (\<lambda>d. stock (body d)) (find_one coll j))"
  by (simp add: update_one_inc_stock_def find_one_update_first inc_stock_def
      option.map_comp comp_def option.map_ident)

lemma deduct_items_stock:
  "list_all (\<lambda>it. ObjectId (product_id it) \<noteq> None) its \<Longrightarrow>
   fst (deduct_items coll its) = None \<and>
   (\<forall>j. map_option (\<lambda>d. stock (body d)) (find_one (snd (deduct_items coll its)) j) =
        map_option (\<lambda>s. s - sum_list (map quantity
             (filter (\<lambda>it. ObjectId (product_id it) = Some j) its)))
          (map_option (\<lambda>d. stock (body d)) (find_one coll j)))"
proof (induction its arbitrary: coll)
  case Nil
  then show ?case by (simp add: option.map_ident)
next
  case (Cons a its)
  then obtain i where i: "ObjectId (product_id a) = Some i" by auto
  from Cons have rest: "list_all (\<lambda>it. ObjectId (product_id it) \<noteq> None) its" by simp
  note IH = Cons.IH [OF rest, of "update_one_inc_stock coll i (- quantity a)"]
  show ?case
    using IH i
    by (auto simp: stock_update_one option.map_comp comp_def algebra_simps)
qed

lemma str_oid_9: "str_oid 9 = ''000000000000000000000009''"
  by (simp add: str_oid_def hexdigits_numeral hexchar_def)

lemma oid15: "ObjectId ''00000000000000000000000f'' = Some 15"
  by (simp add: ObjectId_def hexval_def)

lemma oid_bad: "ObjectId ''not-an-id'' = None"
  by (simp add: ObjectId_def)

lemma find_one_shop:
  "find_one (product_coll shop) 1 = Some (stored 1 wheel)"
  "find_one (product_coll shop) 2 = Some (stored 2 brake)"
  "find_one (product_coll shop) 15 = None"
  "find_one (product_coll shop) 9 = None"
  by (simp_all add: shop_def find_one_def stored_def)

lemma find_one_insert_one:
  "find_one (insert_one coll x) i =
     (case find_one coll i of
        Some y \<Rightarrow> Some y
      | None \<Rightarrow> if ident x = i then Some x else None)"
  by (induction coll) (auto simp: find_one_def insert_one_def)

lemma delete_one_count:
  "delete_one coll i = (n, coll') \<Longrightarrow> n = 0 \<longleftrightarrow> find_one coll i = None"
  by (induction coll arbitrary: n coll') (auto simp: find_one_def split: prod.splits if_splits)

lemma delete_one_none: "find_one coll i = None \<Longrightarrow> delete_one coll i = (0, coll)"
  by (induction coll) (auto simp: find_one_def split: if_splits)

lemma get_product_never_404: "get_product db pid \<noteq> Inl (HTTPException 404 m)"
  by (simp add: get_product_def split: option.splits sum.splits)

lemma str_oid_10_11:
  "str_oid 10 = ''00000000000000000000000a''"
  "str_oid 11 = ''00000000000000000000000b''"
  "str_oid 1 = ''000000000000000000000001''"
  "str_oid 2 = ''000000000000000000000002''"
  "str_oid (Suc 0) = ''000000000000000000000001''"
  by (simp_all add: str_oid_def hexdigits_numeral hexchar_def)

lemma sorted_created_desc:
  "sorted_wrt (\<lambda>a b. created_at b \<le> created_at a) (sort_created_desc coll)"
proof -
  have "sorted (map created_at (sort_key created_at coll))"
    by (rule sorted_sort_key)
  then have "sorted_wrt (\<lambda>a b. created_at a \<le> created_at b) (sort_key created_at coll)"
    by (simp add: sorted_map)
  then show ?thesis
    by (simp add: sort_created_desc_def sorted_wrt_rev)
qed

lemma mset_sort_created_desc: "mset (sort_created_desc coll) = mset coll"
  by (simp add: sort_created_desc_def)

lemma sorted_wrt_take_drop:
  "sorted_wrt P xs \<Longrightarrow> a \<in> set (take n xs) \<Longrightarrow> b \<in> set (drop n xs) \<Longrightarrow> P a b"
proof -
  assume "sorted_wrt P xs" "a \<in> set (take n xs)" "b \<in> set (drop n xs)"
  then have "sorted_wrt P (take n xs @ drop n xs)" by simp
  then show ?thesis
    using \<open>a \<in> set (take n xs)\<close> \<open>b \<in> set (drop n xs)\<close>
    unfolding sorted_wrt_append by blast
qed

lemma accepts_filter:
  "filter (\<lambda>x. accepts m (build_query q cat feat) (body x)) coll =
   filter (\<lambda>x. (case m of None \<Rightarrow> True | Some f \<Rightarrow> text_match f (body x)) \<and>
        (cat = None \<or> cat = Some [] \<or> category (body x) = the cat) \<and>
        (feat = None \<or> featured (body x) = the feat)) coll"
  by (rule filter_cong) (auto simp: accepts_def build_query_def split: option.splits)

lemma cursor_limit_subset: "cursor_limit batch n xs = Inr ys \<Longrightarrow> set ys \<subseteq> set xs"
  by (auto simp: cursor_limit_def split: if_splits dest: in_set_takeD)









lemma bulb_search: "regex_i pcre ''a+b'' = Some f \<Longrightarrow> \<not> f ''Bulb A+B''"
  by (auto simp: regex_i_def plain_char_def ascii_def lower_def)

subsection \<open>Order creation\<close>

text \<open>
  Claim C1. If a line item of the order fails validation (its product id is not a
  well-formed identifier, or no product has it, or the product's stock is below the
  item's quantity), \<open>create_order\<close> fails with status 400 and the store is the one
  it was: no stock has changed, also of the items validated before, and no order is
  inserted.
\<close>

theorem create_order_all_or_nothing:
  assumes "item \<in> set (items order)"
    and "ObjectId (product_id item) = None \<or>
     (\<exists>i. ObjectId (product_id item) = Some i \<and>
        (find_one (product_coll d) i = None \<or>
         (\<exists>p. find_one (product_coll d) i = Some p \<and> stock (body p) < quantity item)))"
  shows "\<exists>e. create_order (Some d) order new_id = (Inl e, Some d) \<and> status_code e = 400"
proof -
  from check_item_bad [OF assms(2)] obtain e' where
    "handlers (check_item (product_coll d) item) = Inl e'" ..
  from validate_items_fails [OF assms(1) this] obtain e where
    "validate_items (product_coll d) (items order) = Inl e" "status_code e = 400" by blast
  then show ?thesis by (simp add: create_order_def)
qed

theorem create_order_all_or_nothing_witness:
  "\<exists>e. create_order (Some shop)
          (order_of [line ''000000000000000000000001'' 2, line ''000000000000000000000002'' 4]) 9
        = (Inl e, Some shop) \<and> status_code e = 400"
proof -
  have "find_one (product_coll shop) 2 = Some (stored 2 brake)"
    by (simp add: shop_def find_one_def stored_def)
  moreover have "stock (body (stored 2 brake)) < quantity (line ''000000000000000000000002'' 4)"
    by (simp add: stored_def brake_def line_def)
  ultimately show ?thesis
    using create_order_all_or_nothing
      [of "line ''000000000000000000000002'' 4"
          "order_of [line ''000000000000000000000001'' 2, line ''000000000000000000000002'' 4]"
          shop 9]
    by (simp add: order_of_def oid2 line_def)
qed

text \<open>
  Claim C2, as the code has it. When every line item names an existing product whose
  stock covers the item's quantity, \<open>create_order\<close> returns the new identifier as a
  string, appends the order (its status "pending" when the request gave none), and the
  stock of every product decreases by the sum of the quantities of the line items that
  name it: each line item is deducted on its own, so a product named by one line item
  decreases by exactly that item's quantity.
\<close>

theorem create_order_deducts_and_persists:
  assumes "\<forall>item \<in> set its. \<exists>i p. ObjectId (product_id item) = Some i \<and>
       find_one (product_coll d) i = Some p \<and> quantity item \<le> stock (body p)"
    and "Order_schema its cust sub ship tot st nts = Inr order"
  shows "\<exists>d'. create_order (Some d) order new_id = (Inr (str_oid new_id), Some d') \<and>
     order_coll d' = order_coll d @
        [\<lparr>ident = new_id, created_at = None, updated_at = None, body = order\<rparr>] \<and>
     status order = (case st of None \<Rightarrow> ''pending'' | Some s \<Rightarrow> s) \<and>
     (\<forall>j. map_option (\<lambda>x. stock (body x)) (find_one (product_coll d') j) =
          map_option (\<lambda>s. s - sum_list (map quantity
               (filter (\<lambda>it. ObjectId (product_id it) = Some j) its)))
            (map_option (\<lambda>x. stock (body x)) (find_one (product_coll d) j)))"
proof -
  from assms(2) have its: "items order = its"
    and st: "status order = (case st of None \<Rightarrow> ''pending'' | Some s \<Rightarrow> s)"
    by (auto simp: Order_schema_def Let_def split: if_splits)
  have v: "validate_items (product_coll d) its = Inr ()"
    using assms(1) by (rule validate_items_ok)
  have "list_all (\<lambda>it. ObjectId (product_id it) \<noteq> None) its"
    using assms(1) by (auto simp: list_all_iff)
  note ded = deduct_items_stock [OF this, of "product_coll d"]
  obtain coll' where c: "deduct_items (product_coll d) its = (None, coll')"
    using ded by (cases "deduct_items (product_coll d) its") auto
  show ?thesis
    using ded v c its st
    by (simp add: create_order_def create_document_def insert_one_def)
qed

theorem create_order_deducts_and_persists_witness:
  "Order_schema [line ''000000000000000000000001'' 2] buyer 0 None 0 None None
     = Inr (order_of [line ''000000000000000000000001'' 2]) \<and>
   (\<exists>d'. create_order (Some shop) (order_of [line ''000000000000000000000001'' 2]) 9
          = (Inr ''000000000000000000000009'', Some d') \<and>
        map (\<lambda>x. stock (body x)) (product_coll shop) = [10, 3] \<and>
        map_option (\<lambda>x. stock (body x)) (find_one (product_coll d') 1) = Some 8 \<and>
        map (\<lambda>x. status (body x)) (order_coll d') = [''pending''])"
proof -
  have sch: "Order_schema [line ''000000000000000000000001'' 2] buyer 0 None 0 None None
     = Inr (order_of [line ''000000000000000000000001'' 2])"
    by (simp add: Order_schema_def order_of_def line_def)
  have hyp: "\<forall>item \<in> set [line ''000000000000000000000001'' 2].
       \<exists>i p. ObjectId (product_id item) = Some i \<and>
       find_one (product_coll shop) i = Some p \<and> quantity item \<le> stock (body p)"
    by (simp add: line_def oid1 shop_def find_one_def stored_def wheel_def)
  have s9: "str_oid 9 = ''000000000000000000000009''"
    by (simp add: str_oid_def hexdigits_numeral hexchar_def)
  from create_order_deducts_and_persists [OF hyp sch, of 9] obtain d' where
    d': "create_order (Some shop) (order_of [line ''000000000000000000000001'' 2]) 9
          = (Inr (str_oid 9), Some d')"
      "order_coll d' = order_coll shop @
        [\<lparr>ident = 9, created_at = None, updated_at = None,
          body = order_of [line ''000000000000000000000001'' 2]\<rparr>]"
      "map_option (\<lambda>x. stock (body x)) (find_one (product_coll d') 1) =
          map_option (\<lambda>s. s - sum_list (map quantity
               (filter (\<lambda>it. ObjectId (product_id it) = Some 1)
                  [line ''000000000000000000000001'' 2])))
            (map_option (\<lambda>x. stock (body x)) (find_one (product_coll shop) 1))"
    by blast
  show ?thesis
    using d' sch
    by (simp add: s9 line_def oid1 shop_def find_one_def stored_def wheel_def brake_def
        order_of_def)
qed

text \<open>
  The claim C2 as the spec words it, each referenced product decreasing by exactly the
  quantity of the line item that names it, fails when two line items name the same
  product: two line items of one wheel each take the stock from 10 to 8.
\<close>

theorem create_order_same_product_twice_counterexample:
  "map quantity (items wheel_twice) = [1, 1] \<and>
   map_option (\<lambda>x. stock (body x)) (find_one (product_coll shop) 1) = Some 10 \<and>
   fst (create_order (Some shop) wheel_twice 9) = Inr ''000000000000000000000009'' \<and>
   map_option (\<lambda>x. stock (body x))
     (find_one (product_coll (the (snd (create_order (Some shop) wheel_twice 9)))) 1) = Some 8"
  by (simp add: create_order_def wheel_twice_def order_of_def line_def check_item_def oid1
      shop_def find_one_def stored_def wheel_def update_one_inc_stock_def inc_stock_def
      create_document_def insert_one_def str_oid_9)

text \<open>
  Claim C5. An order of two line items that name the same product, each quantity within
  the product's stock and their sum above it, is accepted, and the product's stock ends
  below zero: validation compares every line item with the same stored stock.
\<close>

theorem create_order_same_product_oversold:
  assumes "items order = [a, b]"
    and "ObjectId (product_id a) = Some i" and "ObjectId (product_id b) = Some i"
    and "find_one (product_coll d) i = Some p"
    and "quantity a \<le> stock (body p)" and "quantity b \<le> stock (body p)"
    and "stock (body p) < quantity a + quantity b"
  shows "\<exists>d'. create_order (Some d) order new_id = (Inr (str_oid new_id), Some d') \<and>
     map_option (\<lambda>x. stock (body x)) (find_one (product_coll d') i) =
       Some (stock (body p) - quantity a - quantity b) \<and>
     stock (body p) - quantity a - quantity b < 0"
proof -
  have v: "validate_items (product_coll d) [a, b] = Inr ()"
    using assms by (intro validate_items_ok) auto
  have "list_all (\<lambda>it. ObjectId (product_id it) \<noteq> None) [a, b]"
    using assms by simp
  note ded = deduct_items_stock [OF this, of "product_coll d"]
  obtain coll' where c: "deduct_items (product_coll d) [a, b] = (None, coll')"
    using ded by (cases "deduct_items (product_coll d) [a, b]") auto
  from ded c have "map_option (\<lambda>x. stock (body x)) (find_one coll' i) =
      Some (stock (body p) - quantity a - quantity b)"
    using assms(2-4) by (simp add: algebra_simps)
  then show ?thesis
    using v c assms(1,7)
    by (simp add: create_order_def create_document_def insert_one_def)
qed

theorem create_order_same_product_oversold_witness:
  "\<exists>d'. create_order (Some shop) brake_twice 9 = (Inr ''000000000000000000000009'', Some d') \<and>
     map_option (\<lambda>x. stock (body x)) (find_one (product_coll d') 2) = Some (- 1)"
  using create_order_same_product_oversold
    [of brake_twice "line ''000000000000000000000002'' 2" "line ''000000000000000000000002'' 2"
        2 shop "stored 2 brake" 9]
  by (simp add: brake_twice_def order_of_def line_def oid2 find_one_shop stored_def brake_def
      str_oid_9)

subsection \<open>Product endpoints\<close>

text \<open>
  Claim C3 does not hold of \<open>get_product\<close>: for a well-formed identifier that no
  product has, the status 404 raised inside the \<open>try\<close> is caught by its own handler
  and the answer is the status 400 of a malformed identifier.
\<close>

theorem get_product_absent_id_is_400:
  "ObjectId ''00000000000000000000000f'' = Some 15 \<and>
   find_one (product_coll shop) 15 = None \<and>
   get_product (Some shop) ''00000000000000000000000f''
     = Inl (HTTPException 400 ''Invalid product id'') \<and>
   get_product (Some shop) ''not-an-id'' = Inl (HTTPException 400 ''Invalid product id'')"
  by (simp add: get_product_def get_product_try_def oid15 oid_bad find_one_shop)

text \<open>
  Claim C10. For an identifier that is not well-formed, \<open>update_product\<close> and
  \<open>delete_product\<close> raise the unhandled \<open>InvalidId\<close> (status 500) and leave the
  store as it was, where \<open>get_product\<close> answers 400; they answer 404 exactly for a
  well-formed identifier that no product has.
\<close>

theorem update_delete_malformed_id:
  "(ObjectId pid = None \<longrightarrow>
      update_product (Some d) pid payload uu now = (Inl InvalidId, Some d) \<and>
      delete_product (Some d) pid uu = (Inl InvalidId, Some d) \<and>
      status_code InvalidId = 500 \<and>
      get_product (Some d) pid = Inl (HTTPException 400 ''Invalid product id'')) \<and>
   ((\<exists>m. fst (update_product (Some d) pid payload uu now) = Inl (HTTPException 404 m)) \<longleftrightarrow>
      (\<exists>i. ObjectId pid = Some i \<and> find_one (product_coll d) i = None)) \<and>
   ((\<exists>m. fst (delete_product (Some d) pid uu) = Inl (HTTPException 404 m)) \<longleftrightarrow>
      (\<exists>i. ObjectId pid = Some i \<and> find_one (product_coll d) i = None))"
proof (intro conjI)
  show "ObjectId pid = None \<longrightarrow>
      update_product (Some d) pid payload uu now = (Inl InvalidId, Some d) \<and>
      delete_product (Some d) pid uu = (Inl InvalidId, Some d) \<and>
      status_code InvalidId = 500 \<and>
      get_product (Some d) pid = Inl (HTTPException 400 ''Invalid product id'')"
    by (simp add: update_product_def delete_product_def get_product_def get_product_try_def)
  show "(\<exists>m. fst (update_product (Some d) pid payload uu now) = Inl (HTTPException 404 m)) \<longleftrightarrow>
      (\<exists>i. ObjectId pid = Some i \<and> find_one (product_coll d) i = None)"
    by (auto simp: update_product_def find_one_and_update_def split: option.splits)
  show "(\<exists>m. fst (delete_product (Some d) pid uu) = Inl (HTTPException 404 m)) \<longleftrightarrow>
      (\<exists>i. ObjectId pid = Some i \<and> find_one (product_coll d) i = None)"
    by (auto simp: delete_product_def split: option.splits prod.splits
        dest: delete_one_count)
qed

theorem update_delete_malformed_id_witness:
  "update_product (Some shop) ''not-an-id'' wheel True 5 = (Inl InvalidId, Some shop) \<and>
   delete_product (Some shop) ''not-an-id'' True = (Inl InvalidId, Some shop) \<and>
   get_product (Some shop) ''not-an-id'' = Inl (HTTPException 400 ''Invalid product id'') \<and>
   (\<exists>m. fst (update_product (Some shop) ''00000000000000000000000f'' wheel True 5)
        = Inl (HTTPException 404 m)) \<and>
   (\<exists>m. fst (delete_product (Some shop) ''00000000000000000000000f'' True)
        = Inl (HTTPException 404 m))"
  using update_delete_malformed_id [of "''not-an-id''" shop wheel True 5]
    update_delete_malformed_id [of "''00000000000000000000000f''" shop wheel True 5]
  by (simp add: oid_bad oid15 find_one_shop)

text \<open>
  Claim C6. A product created under a fresh identifier and fetched by the string that
  creation returned comes back with that string as its identifier and with exactly the
  fields it was created with.
\<close>

theorem create_then_get_product:
  assumes "find_one (product_coll d) new_id = None" and "new_id < 2 ^ 96"
  shows "\<exists>d'. create_product (Some d) p uu new_id = (Inr (str_oid new_id), Some d') \<and>
     get_product (Some d') (str_oid new_id) =
       Inr \<lparr>ident = str_oid new_id, created_at = None, updated_at = None, body = p\<rparr>"
  using assms
  by (simp add: create_product_def create_document_def get_product_def get_product_try_def
      ObjectId_str_oid find_one_insert_one with_id_def)

theorem create_then_get_product_witness:
  "\<exists>d'. create_product (Some shop) brake True 9 = (Inr ''000000000000000000000009'', Some d') \<and>
     get_product (Some d') ''000000000000000000000009'' =
       Inr \<lparr>ident = ''000000000000000000000009'', created_at = None, updated_at = None,
            body = brake\<rparr>"
  using create_then_get_product [of shop 9 brake True]
  by (simp add: find_one_shop str_oid_9)

subsection \<open>The admin gate\<close>

text \<open>
  Claim C4 does not hold of the gated endpoints: the gate is evaluated once, at import,
  on the default marker. With a secret configured the import itself fails, whatever
  header a request would carry; with none configured every request passes.
\<close>

theorem admin_gate_evaluated_at_import:
  "gate_default (Some ''s3cret'') = Inl (HTTPException 401 ''Invalid admin key'') \<and>
   post_products (Some ''s3cret'') None db payload new_id
     = ImportFailed (HTTPException 401 ''Invalid admin key'') \<and>
   post_products (Some ''s3cret'') (Some ''s3cret'') db payload new_id
     = ImportFailed (HTTPException 401 ''Invalid admin key'') \<and>
   post_products None x_admin_key db payload new_id
     = Response (create_product db payload True new_id)"
  by (simp add: gate_default_def require_admin_def post_products_def)

subsection \<open>Listing\<close>

text \<open>
  Claim C7. Whatever \<open>list_products\<close> returns was selected by the conjunction of the
  filters that were supplied: the text filter when \<open>q\<close> is given and not empty, the
  category when given and not empty, the featured flag when given; a filter left out
  constrains nothing, so without \<open>featured\<close> products of either flag are returned, and
  with \<open>featured=true\<close> every returned product is featured.
\<close>

theorem list_products_filters:
  assumes "list_products pcre batch (Some d) q cat feat limit = Inr docs"
  shows "(feat = Some True \<longrightarrow> (\<forall>x \<in> set docs. featured (body x))) \<and>
     (\<exists>found. docs = map with_id found \<and>
        cursor_limit batch (case limit of None \<Rightarrow> 100 | Some n \<Rightarrow> n)
          (filter (\<lambda>x.
              (q = None \<or> q = Some [] \<or>
                 (\<exists>f. regex_i pcre (the q) = Some f \<and> text_match f (body x))) \<and>
              (cat = None \<or> cat = Some [] \<or> category (body x) = the cat) \<and>
              (feat = None \<or> featured (body x) = the feat))
            (product_coll d)) = Inr found)"
proof -
  let ?lim = "case limit of None \<Rightarrow> 100 | Some n \<Rightarrow> n"
  let ?P = "\<lambda>x. (q = None \<or> q = Some [] \<or>
                 (\<exists>f. regex_i pcre (the q) = Some f \<and> text_match f (body x))) \<and>
              (cat = None \<or> cat = Some [] \<or> category (body x) = the cat) \<and>
              (feat = None \<or> featured (body x) = the feat)"
  from assms obtain fnd found where
    f: "find_products pcre (product_coll d) (build_query q cat feat) = Inr fnd"
    and l: "cursor_limit batch ?lim fnd = Inr found" and dd: "docs = map with_id found"
    by (auto simp: list_products_def split: sum.splits)
  have "fnd = filter ?P (product_coll d)"
  proof (cases "q = None \<or> q = Some []")
    case True
    then have "or_regex (build_query q cat feat) = None"
      by (auto simp: build_query_def)
    with f True show ?thesis
      by (auto simp: find_products_def accepts_filter intro: filter_cong)
  next
    case False
    then obtain s where s: "q = Some s" "s \<noteq> []" by auto
    then have o: "or_regex (build_query q cat feat) = Some s"
      by (simp add: build_query_def)
    with f obtain g where g: "regex_i pcre s = Some g"
      by (auto simp: find_products_def split: option.splits)
    with f o s show ?thesis
      by (auto simp: find_products_def accepts_filter intro: filter_cong)
  qed
  with l dd have second: "\<exists>found. docs = map with_id found \<and>
      cursor_limit batch ?lim (filter ?P (product_coll d)) = Inr found"
    by blast
  have "feat = Some True \<longrightarrow> (\<forall>x \<in> set docs. featured (body x))"
  proof
    assume t: "feat = Some True"
    from second obtain found' where
      "docs = map with_id found'" "set found' \<subseteq> set (filter ?P (product_coll d))"
      using cursor_limit_subset by blast
    with t show "\<forall>x \<in> set docs. featured (body x)"
      by (auto simp: with_id_def)
  qed
  with second show ?thesis by blast
qed

theorem list_products_filters_witness:
  "list_products (\<lambda>q. None) 101 (Some shop) None None (Some True) None
     = Inr [\<lparr>ident = ''000000000000000000000002'', created_at = None, updated_at = None,
             body = brake\<rparr>] \<and>
   featured brake \<and>
   map_sum id (map (\<lambda>x. featured (body x)))
     (list_products (\<lambda>q. None) 101 (Some shop) None None None None) = Inr [False, True]"
proof -
  have a: "list_products (\<lambda>q. None) 101 (Some shop) None None (Some True) None
     = Inr [\<lparr>ident = ''000000000000000000000002'', created_at = None, updated_at = None,
             body = brake\<rparr>]"
    by (simp add: list_products_def find_products_def build_query_def accepts_def shop_def
        stored_def wheel_def brake_def cursor_limit_def with_id_def str_oid_10_11)
  have b: "map_sum id (map (\<lambda>x. featured (body x)))
     (list_products (\<lambda>q. None) 101 (Some shop) None None None None) = Inr [False, True]"
    by (simp add: list_products_def find_products_def build_query_def accepts_def shop_def
        stored_def wheel_def brake_def cursor_limit_def with_id_def)
  from list_products_filters [OF a] have "featured brake" by simp
  with a b show ?thesis by simp
qed




text \<open>
  The claim C9 as the spec words it fails for the limit 0, which the store reads as
  "no limit": both orders are returned.
\<close>

theorem list_orders_limit_zero_counterexample:
  "map ident (order_coll order_shop) = [10, 11] \<and>
   map_sum id (map ident) (list_orders 101 (Some order_shop) True (Some 0))
     = Inr [''00000000000000000000000b'', ''00000000000000000000000a'']"
  by (simp add: list_orders_def order_shop_def cursor_limit_def sort_created_desc_def
      with_id_def str_oid_10_11)

text \<open>
  Claim C9, as the code has it. For a limit from 0 to \<open>2^63 - 1\<close> (100 when the caller
  gives none) \<open>list_orders\<close> returns the orders sorted by creation time, newest first,
  cut to the limit when the limit is positive and not cut at all for the limit 0: the
  result is sorted, a positive limit returns \<open>limit\<close> orders or all of them when there
  are fewer, and no order left out is newer than a returned one.
\<close>

theorem list_orders_newest_first:
  assumes "k = (case limit of None \<Rightarrow> 100 | Some n \<Rightarrow> n)" and "0 \<le> k" and "k < 2 ^ 63"
  shows "\<exists>docs. list_orders batch (Some d) uu limit = Inr (map with_id docs) \<and>
     docs = (if k = 0 then sort_created_desc (order_coll d)
             else take (nat k) (sort_created_desc (order_coll d))) \<and>
     (0 < k \<longrightarrow> length docs = min (nat k) (length (order_coll d))) \<and>
     sorted_wrt (\<lambda>a b. created_at b \<le> created_at a) docs \<and>
     mset (sort_created_desc (order_coll d)) = mset (order_coll d) \<and>
     (\<forall>a \<in> set docs. \<forall>b \<in> set (drop (length docs) (sort_created_desc (order_coll d))).
         created_at b \<le> created_at a)"
proof -
  define s where "s = sort_created_desc (order_coll d)"
  define docs where "docs = (if k = 0 then s else take (nat k) s)"
  have srt_s: "sorted_wrt (\<lambda>a b. created_at b \<le> created_at a) s"
    unfolding s_def by (rule sorted_created_desc)
  have ms: "mset s = mset (order_coll d)"
    unfolding s_def by (rule mset_sort_created_desc)
  have len: "length s = length (order_coll d)"
    using ms by (metis size_mset)
  have run: "list_orders batch (Some d) uu limit = Inr (map with_id docs)"
    using assms by (simp add: list_orders_def cursor_limit_def docs_def s_def)
  have tk: "take (length docs) s = docs"
    by (auto simp: docs_def min_def)
  have srt: "sorted_wrt (\<lambda>a b. created_at b \<le> created_at a) docs"
    using srt_s by (simp add: docs_def sorted_wrt_take)
  have sep: "\<forall>a \<in> set docs. \<forall>b \<in> set (drop (length docs) s). created_at b \<le> created_at a"
  proof (intro ballI)
    fix a b
    assume "a \<in> set docs" and b: "b \<in> set (drop (length docs) s)"
    then have "a \<in> set (take (length docs) s)" by (simp only: tk)
    from sorted_wrt_take_drop [OF srt_s this b] show "created_at b \<le> created_at a" .
  qed
  have cnt: "0 < k \<longrightarrow> length docs = min (nat k) (length (order_coll d))"
    using len by (simp add: docs_def min_def)
  show ?thesis
    unfolding s_def [symmetric]
  proof (intro exI conjI)
    show "list_orders batch (Some d) uu limit = Inr (map with_id docs)" by (rule run)
    show "docs = (if k = 0 then s else take (nat k) s)" by (rule docs_def)
    show "0 < k \<longrightarrow> length docs = min (nat k) (length (order_coll d))" by (rule cnt)
    show "sorted_wrt (\<lambda>a b. created_at b \<le> created_at a) docs" by (rule srt)
    show "mset s = mset (order_coll d)" by (rule ms)
    show "\<forall>a \<in> set docs. \<forall>b \<in> set (drop (length docs) s). created_at b \<le> created_at a"
      by (rule sep)
  qed
qed

theorem list_orders_newest_first_witness:
  "list_orders 101 (Some order_shop) True (Some 1)
     = Inr [\<lparr>ident = ''00000000000000000000000b'', created_at = Some 200, updated_at = None,
             body = brake_twice\<rparr>] \<and>
   map_sum id (map ident) (list_orders 101 (Some order_shop) True None)
     = Inr [''00000000000000000000000b'', ''00000000000000000000000a'']"
proof -
  have "sort_created_desc (order_coll order_shop) =
      [\<lparr>ident = 11, created_at = Some 200, updated_at = None, body = brake_twice\<rparr>,
       \<lparr>ident = 10, created_at = Some 100, updated_at = None, body = wheel_twice\<rparr>]"
    by (simp add: order_shop_def sort_created_desc_def)
  then show ?thesis
    using list_orders_newest_first [where k = 1 and limit = "Some 1" and d = order_shop
          and uu = True and batch = 101]
      list_orders_newest_first [where k = 100 and limit = None and d = order_shop
          and uu = True and batch = 101]
    by (simp add: with_id_def str_oid_10_11)
qed

end
